theory Spec2Isabelle
  imports Complex_Main "HOL-Library.Word" "HOL-Library.Multiset"
begin

section \<open>JavaScript strings\<close>

text \<open>
  A JavaScript string is a sequence of UTF-16 code units. \<open>js\<close> writes an ASCII literal
  as such a sequence.
\<close>

type_synonym code_unit = "16 word"
type_synonym jsstring = "code_unit list"

definition js :: "string \<Rightarrow> jsstring" where
  "js s = map of_char s"

definition is_high_surrogate :: "code_unit \<Rightarrow> bool" where
  "is_high_surrogate u \<longleftrightarrow> 0xD800 \<le> u \<and> u \<le> 0xDBFF"

definition is_low_surrogate :: "code_unit \<Rightarrow> bool" where
  "is_low_surrogate u \<longleftrightarrow> 0xDC00 \<le> u \<and> u \<le> 0xDFFF"

definition unit_bytes :: "code_unit \<Rightarrow> nat" where
  "unit_bytes u = (if u < 0x80 then 1 else if u < 0x800 then 2 else 3)"

text \<open>
  \<open>Buffer.byteLength(content, 'utf8')\<close> of Node: the number of bytes of the UTF-8
  encoding. A surrogate pair is one code point of four bytes; a lone surrogate is
  written as U+FFFD, three bytes.
\<close>

fun byteLength :: "jsstring \<Rightarrow> nat" where
  "byteLength [] = 0"
| "byteLength [u] = unit_bytes u"
| "byteLength (u # v # vs) =
     (if is_high_surrogate u \<and> is_low_surrogate v then 4 + byteLength vs
      else unit_bytes u + byteLength (v # vs))"

text \<open>\<open>content.split('\n')\<close>: the pieces between line feeds; the empty string gives one piece.\<close>

fun split_nl :: "jsstring \<Rightarrow> jsstring list" where
  "split_nl [] = [[]]"
| "split_nl (u # us) =
     (if u = 0x0A then [] # split_nl us
      else (case split_nl us of [] \<Rightarrow> [[u]] | s # ss \<Rightarrow> (u # s) # ss))"

section \<open>The function-counting regular expression\<close>

text \<open>
  \<open>/function\s*\(|=>\s*{|\w+\s*:\s*function/g\<close>, without the \<open>u\<close> and \<open>i\<close> flags, so
  it works on code units. \<open>\s\<close> is ECMAScript's WhiteSpace and LineTerminator, \<open>\w\<close> is
  \<open>[A-Za-z0-9_]\<close>.
\<close>

definition is_space :: "code_unit \<Rightarrow> bool" where
  "is_space u \<longleftrightarrow>
     (0x09 \<le> u \<and> u \<le> 0x0D) \<or> u = 0x20 \<or> u = 0xA0 \<or> u = 0x1680 \<or>
     (0x2000 \<le> u \<and> u \<le> 0x200A) \<or> u = 0x2028 \<or> u = 0x2029 \<or> u = 0x202F \<or>
     u = 0x205F \<or> u = 0x3000 \<or> u = 0xFEFF"

definition is_word :: "code_unit \<Rightarrow> bool" where
  "is_word u \<longleftrightarrow>
     (0x30 \<le> u \<and> u \<le> 0x39) \<or> (0x41 \<le> u \<and> u \<le> 0x5A) \<or> u = 0x5F \<or>
     (0x61 \<le> u \<and> u \<le> 0x7A)"

text \<open>\<open>lit p xs\<close>: what is left of \<open>xs\<close> after the literal \<open>p\<close>, when \<open>xs\<close> starts with it.\<close>

fun lit :: "jsstring \<Rightarrow> jsstring \<Rightarrow> jsstring option" where
  "lit [] xs = Some xs"
| "lit (p # ps) [] = None"
| "lit (p # ps) (x # xs) = (if p = x then lit ps xs else None)"

text \<open>
  The three alternatives, each giving the rest of the input after its match. The greedy
  quantifiers never need to give a unit back: the unit after \<open>\w+\<close> is not a word unit,
  the unit after \<open>\s*\<close> is not a space, and what follows in the pattern is a fixed unit of
  the other kind.
\<close>

definition alt_function_paren :: "jsstring \<Rightarrow> jsstring option" where
  "alt_function_paren xs =
     (case lit (js ''function'') xs of None \<Rightarrow> None
      | Some r \<Rightarrow> lit (js ''('') (dropWhile is_space r))"

definition alt_arrow_brace :: "jsstring \<Rightarrow> jsstring option" where
  "alt_arrow_brace xs =
     (case lit (js ''=>'') xs of None \<Rightarrow> None
      | Some r \<Rightarrow> lit (js ''{'') (dropWhile is_space r))"

definition alt_method :: "jsstring \<Rightarrow> jsstring option" where
  "alt_method xs =
     (if takeWhile is_word xs = [] then None
      else (case lit (js '':'') (dropWhile is_space (dropWhile is_word xs)) of None \<Rightarrow> None
            | Some r \<Rightarrow> lit (js ''function'') (dropWhile is_space r)))"

definition match_at :: "jsstring \<Rightarrow> jsstring option" where
  "match_at xs =
     (case alt_function_paren xs of Some r \<Rightarrow> Some r
      | None \<Rightarrow> (case alt_arrow_brace xs of Some r \<Rightarrow> Some r
                  | None \<Rightarrow> alt_method xs))"

lemma lit_length: "lit p xs = Some r \<Longrightarrow> length r + length p = length xs"
  by (induction p xs rule: lit.induct) (auto split: if_splits)

lemma length_dropWhile_le_aux: "length (dropWhile P xs) \<le> length xs"
  by (induction xs) auto

lemma alt_function_paren_shorter:
  assumes "alt_function_paren xs = Some r"
  shows "length r < length xs"
proof -
  from assms obtain r1 where a: "lit (js ''function'') xs = Some r1"
    and b: "lit (js ''('') (dropWhile is_space r1) = Some r"
    by (auto simp: alt_function_paren_def split: option.splits)
  from lit_length [OF a] have "length r1 < length xs" by (simp add: js_def)
  moreover from lit_length [OF b] have "length r \<le> length (dropWhile is_space r1)" by simp
  moreover have "length (dropWhile is_space r1) \<le> length r1" by (rule length_dropWhile_le_aux)
  ultimately show ?thesis by linarith
qed

lemma alt_arrow_brace_shorter:
  assumes "alt_arrow_brace xs = Some r"
  shows "length r < length xs"
proof -
  from assms obtain r1 where a: "lit (js ''=>'') xs = Some r1"
    and b: "lit (js ''{'') (dropWhile is_space r1) = Some r"
    by (auto simp: alt_arrow_brace_def split: option.splits)
  from lit_length [OF a] have "length r1 < length xs" by (simp add: js_def)
  moreover from lit_length [OF b] have "length r \<le> length (dropWhile is_space r1)" by simp
  moreover have "length (dropWhile is_space r1) \<le> length r1" by (rule length_dropWhile_le_aux)
  ultimately show ?thesis by linarith
qed

lemma alt_method_shorter:
  assumes "alt_method xs = Some r"
  shows "length r < length xs"
proof -
  from assms obtain r1 where a: "lit (js '':'') (dropWhile is_space (dropWhile is_word xs)) = Some r1"
    and b: "lit (js ''function'') (dropWhile is_space r1) = Some r"
    by (auto simp: alt_method_def split: option.splits if_splits)
  from lit_length [OF a]
  have "length r1 < length (dropWhile is_space (dropWhile is_word xs))" by (simp add: js_def)
  moreover have "length (dropWhile is_space (dropWhile is_word xs)) \<le> length (dropWhile is_word xs)"
    by (rule length_dropWhile_le_aux)
  moreover have "length (dropWhile is_word xs) \<le> length xs" by (rule length_dropWhile_le_aux)
  moreover from lit_length [OF b] have "length r \<le> length (dropWhile is_space r1)" by simp
  moreover have "length (dropWhile is_space r1) \<le> length r1" by (rule length_dropWhile_le_aux)
  ultimately show ?thesis by linarith
qed

lemma match_at_shorter: "match_at xs = Some r \<Longrightarrow> length r < length xs"
  by (auto simp: match_at_def split: option.splits
      dest: alt_function_paren_shorter alt_arrow_brace_shorter alt_method_shorter)

text \<open>
  \<open>content.match(re)\<close> with the \<open>g\<close> flag: try the expression at each position from the
  left; after a match go on behind it, otherwise one unit further. \<open>match_all\<close> is the
  number of matches, the \<open>length\<close> of \<open>content.match(re) || []\<close>.
\<close>

function match_all :: "jsstring \<Rightarrow> nat" where
  "match_all [] = 0"
| "match_all (x # xs) =
     (case match_at (x # xs) of Some r \<Rightarrow> Suc (match_all r) | None \<Rightarrow> match_all xs)"
  by pat_completeness auto
termination
  by (relation "measure length") (auto dest: match_at_shorter)

section \<open>File metrics\<close>

text \<open>
  The fields \<open>size\<close> and \<open>functions\<close> of the source are \<open>size_bytes\<close> and
  \<open>functions_count\<close> here (\<open>size\<close> is a constant of HOL, \<open>functions\<close> a keyword).
\<close>

record FileMetrics =
  size_bytes :: nat
  lines :: nat
  functions_count :: nat
  estimatedTokens :: nat

text \<open>
  \<open>Math.ceil(n / d)\<close> for a byte or token count \<open>n\<close> and \<open>d\<close> one of 4 and 200000. The
  counts are far below \<open>2^53\<close>, the quotient of doubles is correctly rounded and, when not
  an integer, at least \<open>1/d\<close> away from one, so the result is the integer ceiling.
\<close>

definition ceil_div :: "nat \<Rightarrow> nat \<Rightarrow> nat" where
  "ceil_div n d = (n + (d - 1)) div d"

definition getFileMetrics :: "jsstring \<Rightarrow> FileMetrics" where
  "getFileMetrics content =
     (let sz = byteLength content;
          ls = length (split_nl content);
          functionMatches = match_all content;
          est = ceil_div sz 4
      in \<lparr>size_bytes = sz, lines = ls, functions_count = functionMatches,
          estimatedTokens = est\<rparr>)"

section \<open>The command handlers\<close>

text \<open>
  The file system as the handlers see it: \<open>existsSync\<close> is false on \<open>Missing\<close>,
  \<open>readFileSync(path, 'utf8')\<close> throws on \<open>Unreadable\<close> and returns the decoded text of a
  \<open>File\<close>.
\<close>

datatype fs_entry = Missing | Unreadable | File jsstring

type_synonym filesystem = "string \<Rightarrow> fs_entry"

datatype LLMProvider = Claude | Openai | Local
datatype AnalysisFocus = Security | General | Performance
datatype OutputFormat = Markdown | Json | Html

text \<open>
  The handlers take their options as objects; \<open>handleMetrics\<close> declares only the
  \<open>file\<close> field, \<open>handleAnalyze\<close> the whole of \<open>AnalysisOptions\<close>. \<open>maxTokens\<close> is a
  number that no handler reads.
  The fields \<open>file\<close>, \<open>output\<close>, \<open>focus\<close> and \<open>format\<close> are \<open>file_path\<close>, \<open>output_path\<close>,
  \<open>focus_area\<close> and \<open>output_format\<close> here (keywords of Isabelle).
\<close>

record FileOption =
  file_path :: string

record AnalysisOptions = FileOption +
  output_path :: "string option"
  provider :: "LLMProvider option"
  focus_area :: "AnalysisFocus option"
  output_format :: "OutputFormat option"
  verbose :: "bool option"
  maxTokens :: "int option"
  filterLibraries :: "bool option"

text \<open>
  What a handler writes, one event for each call of \<open>console.log\<close>, \<open>console.warn\<close> and
  \<open>console.error\<close>, with the numbers it prints (a size is given in bytes, the text shows it
  in megabytes), and how it ends: by returning or by \<open>process.exit\<close>.
\<close>

datatype console_event =
  Log_Starting
  | Log_Options AnalysisOptions
  | Log_FileMetrics
  | Log_Size nat
  | Log_Lines nat
  | Log_EstimatedTokens nat
  | Warn_LargeFile
  | Log_NotImplemented
  | Log_NextSteps
  | Log_Step nat
  | Log_MetricsHeader
  | Log_Rule
  | Log_Functions nat
  | Log_ChunksNeeded nat
  | Error_FileNotFound string
  | Error_AnalysisFailed
  | Error_MetricsFailed

datatype ending = Returned | Exited nat

definition handleAnalyze :: "filesystem \<Rightarrow> AnalysisOptions \<Rightarrow> console_event list \<times> ending" where
  "handleAnalyze fs options =
     (let start = Log_Starting # (if verbose options = Some True then [Log_Options options] else [])
      in case fs (file_path options) of
           Missing \<Rightarrow> (start @ [Error_FileNotFound (file_path options)], Exited 1)
         | Unreadable \<Rightarrow> (start @ [Error_AnalysisFailed], Exited 1)
         | File fileContent \<Rightarrow>
             (let metrics = getFileMetrics fileContent
              in (start
                  @ [Log_FileMetrics, Log_Size (size_bytes metrics), Log_Lines (lines metrics),
                     Log_EstimatedTokens (estimatedTokens metrics)]
                  @ (if size_bytes metrics > 50 * 1024 * 1024 then [Warn_LargeFile] else [])
                  @ [Log_NotImplemented, Log_NextSteps, Log_Step 1, Log_Step 2, Log_Step 3,
                     Log_Step 4],
                  Returned)))"

definition handleMetrics :: "filesystem \<Rightarrow> 'a FileOption_scheme \<Rightarrow> console_event list \<times> ending" where
  "handleMetrics fs options =
     (case fs (file_path options) of
        Missing \<Rightarrow> ([Error_FileNotFound (file_path options)], Exited 1)
      | Unreadable \<Rightarrow> ([Error_MetricsFailed], Exited 1)
      | File fileContent \<Rightarrow>
          (let metrics = getFileMetrics fileContent
           in ([Log_MetricsHeader, Log_Rule, Log_Size (size_bytes metrics),
                Log_Lines (lines metrics), Log_Functions (functions_count metrics),
                Log_EstimatedTokens (estimatedTokens metrics),
                Log_ChunksNeeded (ceil_div (estimatedTokens metrics) 200000)],
               Returned)))"

text \<open>The token estimates and the chunk counts among the events written.\<close>

fun reported_tokens :: "console_event list \<Rightarrow> nat list" where
  "reported_tokens [] = []"
| "reported_tokens (Log_EstimatedTokens n # evs) = n # reported_tokens evs"
| "reported_tokens (ev # evs) = reported_tokens evs"

fun reported_chunks :: "console_event list \<Rightarrow> nat list" where
  "reported_chunks [] = []"
| "reported_chunks (Log_ChunksNeeded n # evs) = n # reported_chunks evs"
| "reported_chunks (ev # evs) = reported_chunks evs"

section \<open>The version lookup\<close>

text \<open>
  What \<open>JSON.parse\<close> returns. A number is a double: a finite value or an infinity
  (\<open>JSON.parse('1e999')\<close>); the two zeros are one value here, both being falsy. An object
  is the list of its own properties, each key once.
\<close>

datatype jsnumber = Finite real | PosInfinity | NegInfinity

datatype json =
  JNull
  | JBool bool
  | JNumber jsnumber
  | JString jsstring
  | JArray "json list"
  | JObject "(jsstring \<times> json) list"

datatype js_value = Undefined | Value json

datatype js_exception = TypeError | SyntaxError | ReadError

text \<open>
  \<open>packageJson.version\<close>: reading a property of \<open>null\<close> throws a TypeError; an object
  gives its own property or \<open>undefined\<close>; a boolean, number, string or array has no
  property of that name.
\<close>

fun get_version :: "json \<Rightarrow> js_exception + js_value" where
  "get_version JNull = Inl TypeError"
| "get_version (JObject props) =
     Inr (case map_of props (js ''version'') of None \<Rightarrow> Undefined | Some v \<Rightarrow> Value v)"
| "get_version (JBool b) = Inr Undefined"
| "get_version (JNumber n) = Inr Undefined"
| "get_version (JString s) = Inr Undefined"
| "get_version (JArray vs) = Inr Undefined"

text \<open>The operand test of \<open>||\<close>: \<open>undefined\<close>, \<open>null\<close>, \<open>false\<close>, \<open>0\<close> and \<open>''\<close> are falsy.\<close>

fun truthy :: "js_value \<Rightarrow> bool" where
  "truthy Undefined = False"
| "truthy (Value JNull) = False"
| "truthy (Value (JBool b)) = b"
| "truthy (Value (JNumber n)) = (n \<noteq> Finite 0)"
| "truthy (Value (JString s)) = (s \<noteq> [])"
| "truthy (Value (JArray vs)) = True"
| "truthy (Value (JObject props)) = True"

definition fallback_version :: js_value where
  "fallback_version = Value (JString (js ''0.1.0''))"

text \<open>
  The body of the \<open>try\<close> block of \<open>getVersion\<close>: \<open>Inl\<close> when a statement throws,
  \<open>Inr (Some v)\<close> when it returns \<open>v\<close>, \<open>Inr None\<close> when control leaves the block
  without a return. \<open>JSON_parse\<close> is the built-in parser (\<open>None\<close> for a SyntaxError) and
  \<open>packagePath\<close> the value of \<open>join(__dirname, '..', 'package.json')\<close>.
\<close>

definition getVersion_try ::
  "(jsstring \<Rightarrow> json option) \<Rightarrow> filesystem \<Rightarrow> string \<Rightarrow> js_exception + js_value option" where
  "getVersion_try JSON_parse fs packagePath =
     (case fs packagePath of
        Missing \<Rightarrow> Inr None
      | Unreadable \<Rightarrow> Inl ReadError
      | File text \<Rightarrow>
          (case JSON_parse text of
             None \<Rightarrow> Inl SyntaxError
           | Some packageJson \<Rightarrow>
               (case get_version packageJson of
                  Inl e \<Rightarrow> Inl e
                | Inr v \<Rightarrow> Inr (Some (if truthy v then v else fallback_version)))))"

text \<open>The \<open>catch\<close> clause swallows every exception; the last statement returns the fallback.\<close>

definition getVersion :: "(jsstring \<Rightarrow> json option) \<Rightarrow> filesystem \<Rightarrow> string \<Rightarrow> js_value" where
  "getVersion JSON_parse fs packagePath =
     (case getVersion_try JSON_parse fs packagePath of
        Inl e \<Rightarrow> fallback_version
      | Inr None \<Rightarrow> fallback_version
      | Inr (Some v) \<Rightarrow> v)"

fun is_js_string :: "js_value \<Rightarrow> bool" where
  "is_js_string (Value (JString s)) = True"
| "is_js_string v = False"

text \<open>The text \<open>{"version":1}\<close> and the value a JSON parser gives for it.\<close>

definition numeric_version_text :: jsstring where
  "numeric_version_text =
     [0x7B, 0x22, 0x76, 0x65, 0x72, 0x73, 0x69, 0x6F, 0x6E, 0x22, 0x3A, 0x31, 0x7D]"

definition numeric_version_json :: json where
  "numeric_version_json = JObject [(js ''version'', JNumber (Finite 1))]"

section \<open>The analysis orchestrator\<close>

text \<open>
  Modelled from the spec: the repository has no orchestrator (its \<open>analyze\<close> command ends
  after the file metrics), so the data of this section is that of section 3 of the
  specification. \<open>ChunkType\<close> is the type of that name in the repository's type
  declarations; the other fields of a chunk are the specification's, \<open>id\<close>,
  \<open>estimatedTokens\<close> and \<open>type\<close> under the names \<open>chunk_id\<close>, \<open>chunk_tokens\<close> and
  \<open>chunk_type\<close>, and \<open>chunkId\<close> of an outcome as \<open>outcome_chunkId\<close>.
\<close>

datatype ChunkType =
  CT_function | CT_class | CT_module | CT_global | CT_event_handler
  | CT_library | CT_utility | CT_security_relevant | CT_unknown

record Chunk =
  chunk_id :: string
  byteRange :: "nat \<times> nat"
  chunk_tokens :: nat
  chunk_type :: ChunkType
  importance :: real
  dependencies :: "string list"

datatype Severity = Low | Medium | High | Critical

record Finding =
  category :: string
  severity :: Severity
  confidence :: real
  location :: nat
  description :: string
  recommendation :: "string option"

datatype AnalyzerError = Transient | Permanent

record AnalysisOutcome =
  outcome_chunkId :: string
  findings :: "Finding list"
  succeeded :: bool
  attemptCount :: nat
  errorKind :: "AnalyzerError option"

text \<open>
  Modelled from the spec: the analyzer capability of sections 4.5 and 6, a call on one
  chunk that gives findings or an error classified as transient or permanent. The
  second argument is the number of the attempt on that chunk, from 1, so that a call
  may fail first and succeed when retried.
\<close>

type_synonym analyzer = "Chunk \<Rightarrow> nat \<Rightarrow> AnalyzerError + Finding list"

record OrchestratorConfig =
  concurrency :: nat
  maxTotalTokens :: nat
  retries :: nat
  backoff :: nat

text \<open>What the run does to the outside: a call of the analyzer, or a wait before a retry.\<close>

datatype dispatch_event = Call string nat | Backoff nat

definition succeeded_outcome :: "Chunk \<Rightarrow> Finding list \<Rightarrow> nat \<Rightarrow> AnalysisOutcome" where
  "succeeded_outcome c fs k =
     \<lparr>outcome_chunkId = chunk_id c, findings = fs, succeeded = True, attemptCount = k,
      errorKind = None\<rparr>"

definition failed_outcome :: "Chunk \<Rightarrow> AnalyzerError \<Rightarrow> nat \<Rightarrow> AnalysisOutcome" where
  "failed_outcome c e k =
     \<lparr>outcome_chunkId = chunk_id c, findings = [], succeeded = False, attemptCount = k,
      errorKind = Some e\<rparr>"

text \<open>
  Modelled from the spec: the retry loop of one invocation (section 4.5, third item).
  A transient failure is retried after a wait that doubles with every attempt, at most
  \<open>retries\<close> times; a permanent failure is not retried; the outcome of a failure carries
  the error kind of the last call. \<open>attempts analyze b c n k\<close> is attempt \<open>k\<close> with \<open>n\<close>
  retries left and wait base \<open>b\<close>.
\<close>

fun attempts :: "analyzer \<Rightarrow> nat \<Rightarrow> Chunk \<Rightarrow> nat \<Rightarrow> nat \<Rightarrow> AnalysisOutcome \<times> dispatch_event list" where
  "attempts analyze b c 0 k =
     (case analyze c k of
        Inr fs \<Rightarrow> (succeeded_outcome c fs k, [Call (chunk_id c) k])
      | Inl e \<Rightarrow> (failed_outcome c e k, [Call (chunk_id c) k]))"
| "attempts analyze b c (Suc n) k =
     (case analyze c k of
        Inr fs \<Rightarrow> (succeeded_outcome c fs k, [Call (chunk_id c) k])
      | Inl Permanent \<Rightarrow> (failed_outcome c Permanent k, [Call (chunk_id c) k])
      | Inl Transient \<Rightarrow>
          (case attempts analyze b c n (Suc k) of
             (out, evs) \<Rightarrow> (out, Call (chunk_id c) k # Backoff (b * 2 ^ (k - 1)) # evs)))"

record RunResult =
  outcomes :: "AnalysisOutcome list"
  dropped :: "string list"
  undispatched :: "string list"
  events :: "dispatch_event list"
  tokensSpent :: nat

text \<open>
  Modelled from the spec: the run of section 4.5, one dispatch decision after the other
  (the pool of section 5 is taken in submission order: \<open>concurrency\<close> bounds how many
  invocations are in flight, the invocations share nothing but the token counter, and
  the theorems on the run speak of which outcomes exist, not of when they arrive). At decision \<open>i\<close> with \<open>spent\<close> tokens
  committed: when cancellation has been observed (\<open>cancelled i\<close>) nothing more is
  dispatched; a chunk whose estimate would take the total over \<open>maxTotalTokens\<close> is
  dropped and its id recorded; any other chunk is handed whole to the analyzer.
\<close>

fun run_loop ::
  "analyzer \<Rightarrow> OrchestratorConfig \<Rightarrow> (nat \<Rightarrow> bool) \<Rightarrow> nat \<Rightarrow> nat \<Rightarrow> Chunk list \<Rightarrow> RunResult" where
  "run_loop analyze config cancelled i spent [] =
     \<lparr>outcomes = [], dropped = [], undispatched = [], events = [], tokensSpent = spent\<rparr>"
| "run_loop analyze config cancelled i spent (c # cs) =
     (if cancelled i then
        \<lparr>outcomes = [], dropped = [], undispatched = map chunk_id (c # cs), events = [],
         tokensSpent = spent\<rparr>
      else if spent + chunk_tokens c > maxTotalTokens config then
        (let r = run_loop analyze config cancelled (Suc i) spent cs
         in r\<lparr>dropped := chunk_id c # dropped r\<rparr>)
      else
        (case attempts analyze (backoff config) c (retries config) 1 of
           (out, evs) \<Rightarrow>
             (let r = run_loop analyze config cancelled (Suc i) (spent + chunk_tokens c) cs
              in r\<lparr>outcomes := out # outcomes r, events := evs @ events r\<rparr>)))"

definition run :: "Chunk list \<Rightarrow> analyzer \<Rightarrow> OrchestratorConfig \<Rightarrow> (nat \<Rightarrow> bool) \<Rightarrow> RunResult" where
  "run chunks analyze config cancelled = run_loop analyze config cancelled 0 0 chunks"

text \<open>
  The chunks a run submits to the analyzer: the selection of \<open>run_loop\<close> alone, which
  does not look at what the analyzer answers.
\<close>

fun submitted :: "OrchestratorConfig \<Rightarrow> (nat \<Rightarrow> bool) \<Rightarrow> nat \<Rightarrow> nat \<Rightarrow> Chunk list \<Rightarrow> Chunk list" where
  "submitted config cancelled i spent [] = []"
| "submitted config cancelled i spent (c # cs) =
     (if cancelled i then []
      else if spent + chunk_tokens c > maxTotalTokens config then
        submitted config cancelled (Suc i) spent cs
      else c # submitted config cancelled (Suc i) (spent + chunk_tokens c) cs)"

definition outcome_for :: "analyzer \<Rightarrow> OrchestratorConfig \<Rightarrow> Chunk \<Rightarrow> AnalysisOutcome" where
  "outcome_for analyze config c = fst (attempts analyze (backoff config) c (retries config) 1)"

text \<open>The ids of the chunks dispatched, read off the events: the first call on each.\<close>

fun first_calls :: "dispatch_event list \<Rightarrow> string list" where
  "first_calls [] = []"
| "first_calls (Call cid k # evs) = (if k = 1 then cid # first_calls evs else first_calls evs)"
| "first_calls (Backoff d # evs) = first_calls evs"

text \<open>
  Five chunks of ten tokens each, an analyzer that accepts every chunk, and the answers
  of an analyzer that is busy at the first attempt and rejects the chunk for good at
  the second.
\<close>

definition chunk_of :: "string \<Rightarrow> nat \<Rightarrow> nat \<Rightarrow> nat \<Rightarrow> Chunk" where
  "chunk_of cid s e t =
     \<lparr>chunk_id = cid, byteRange = (s, e), chunk_tokens = t, chunk_type = CT_unknown,
      importance = 0, dependencies = []\<rparr>"

definition five_chunks :: "Chunk list" where
  "five_chunks =
     [chunk_of ''c1'' 0 40 10, chunk_of ''c2'' 40 80 10, chunk_of ''c3'' 80 120 10,
      chunk_of ''c4'' 120 160 10, chunk_of ''c5'' 160 200 10]"

definition accepting :: analyzer where
  "accepting c k = Inr []"

definition busy_then_rejected :: "nat \<Rightarrow> AnalyzerError + Finding list" where
  "busy_then_rejected k = (if k = 1 then Inl Transient else Inl Permanent)"

definition config_of :: "nat \<Rightarrow> OrchestratorConfig" where
  "config_of budget = \<lparr>concurrency = 3, maxTotalTokens = budget, retries = 2, backoff = 100\<rparr>"

definition never :: "nat \<Rightarrow> bool" where
  "never i = False"

section \<open>Properties of the metrics\<close>

lemma ceil_div_ceiling:
  assumes "0 < d"
  shows "int (ceil_div n d) = \<lceil>real n / real d\<rceil>"
proof -
  define k where "k = (n + (d - 1)) div d"
  have lo: "k * d \<le> n + (d - 1)"
    unfolding k_def by simp
  have hi: "n + (d - 1) < k * d + d"
    unfolding k_def using assms
    by (metis add.commute dividend_less_div_times)
  from hi assms have "n \<le> k * d" by linarith
  then have "real n \<le> real k * real d"
    by (metis of_nat_le_iff of_nat_mult)
  then have up: "real n / real d \<le> of_int (int k)"
    using assms by (simp add: pos_divide_le_eq)
  from lo assms have "k * d < n + d" by linarith
  then have "real k * real d < real n + real d"
    by (metis of_nat_less_iff of_nat_mult of_nat_add)
  then have "(real k - 1) * real d < real n"
    by (simp add: algebra_simps)
  then have dn: "of_int (int k) - 1 < real n / real d"
    using assms by (simp add: pos_less_divide_eq)
  have "\<lceil>real n / real d\<rceil> = int k"
    using dn up by (rule ceiling_unique)
  then show ?thesis
    by (simp add: ceil_div_def k_def)
qed

lemma getFileMetrics_fields:
  "size_bytes (getFileMetrics content) = byteLength content"
  "lines (getFileMetrics content) = length (split_nl content)"
  "functions_count (getFileMetrics content) = match_all content"
  "estimatedTokens (getFileMetrics content) = ceil_div (byteLength content) 4"
  by (simp_all add: getFileMetrics_def Let_def)

lemma js_abcdefgh_bytes: "byteLength (js ''abcdefgh'') = 8"
  by (simp add: js_def unit_bytes_def is_high_surrogate_def)

text \<open>
  The definitions at work: a surrogate pair, an ASCII letter, a two-byte and a
  three-byte unit and a lone surrogate; two lines; and three matches of the expression,
  one for each alternative.
\<close>

lemma byteLength_example: "byteLength [0xD83D, 0xDE00, 0x61, 0xE9, 0x4E2D, 0xD800] = 13"
  by (simp add: unit_bytes_def is_high_surrogate_def is_low_surrogate_def)

lemma lines_example: "lines (getFileMetrics (js ''a'' @ [0x0A] @ js ''b'')) = 2"
  by (simp add: getFileMetrics_fields js_def)

lemma match_all_example:
  "match_all (js ''x=>{}; a:function(){} function  (y)'') = 3"
  by (simp add: js_def match_at_def alt_function_paren_def alt_arrow_brace_def alt_method_def
      is_space_def is_word_def)

lemma reported_tokens_append:
  "reported_tokens (xs @ ys) = reported_tokens xs @ reported_tokens ys"
  by (induction xs rule: reported_tokens.induct) simp_all

lemma handleAnalyze_tokens:
  "reported_tokens (fst (handleAnalyze fs options)) =
     (case fs (file_path options) of
        File content \<Rightarrow> [ceil_div (byteLength content) 4]
      | Missing \<Rightarrow> []
      | Unreadable \<Rightarrow> [])"
  by (simp add: handleAnalyze_def Let_def reported_tokens_append getFileMetrics_fields
      split: fs_entry.splits)

lemma handleAnalyze_exits:
  "snd (handleAnalyze fs options) =
     (case fs (file_path options) of File content \<Rightarrow> Returned | Missing \<Rightarrow> Exited 1
      | Unreadable \<Rightarrow> Exited 1)"
  by (simp add: handleAnalyze_def Let_def split: fs_entry.splits)

text \<open>
  C1 (as amended). The estimated token count is the ceiling of the UTF-8 byte length
  divided by the fixed ratio 4, for every content string. The \<open>analyze\<close> and \<open>metrics\<close>
  handlers report exactly this number whatever their options are: no option,
  \<open>maxTokens\<close> included, enters the estimate.
\<close>

theorem estimatedTokens_fixed_ratio:
  fixes options :: AnalysisOptions and mopts :: "'a FileOption_scheme"
  shows
  "int (estimatedTokens (getFileMetrics content)) = \<lceil>real (byteLength content) / 4\<rceil>
   \<and> reported_tokens (fst (handleAnalyze (fs(p := File content)) (options\<lparr>file_path := p\<rparr>))) =
       [nat \<lceil>real (byteLength content) / 4\<rceil>]
   \<and> reported_tokens (fst (handleMetrics (fs(p := File content)) (mopts\<lparr>file_path := p\<rparr>))) =
       [nat \<lceil>real (byteLength content) / 4\<rceil>]"
proof -
  have c: "int (ceil_div (byteLength content) 4) = \<lceil>real (byteLength content) / 4\<rceil>"
    using ceil_div_ceiling [of 4 "byteLength content"] by simp
  have a: "int (estimatedTokens (getFileMetrics content)) = \<lceil>real (byteLength content) / 4\<rceil>"
    using c by (simp add: getFileMetrics_fields)
  have n: "ceil_div (byteLength content) 4 = nat \<lceil>real (byteLength content) / 4\<rceil>"
    using c by linarith
  then have b: "reported_tokens (fst (handleAnalyze (fs(p := File content)) (options\<lparr>file_path := p\<rparr>))) =
       [nat \<lceil>real (byteLength content) / 4\<rceil>]"
    by (simp add: handleAnalyze_tokens)
  have d: "reported_tokens (fst (handleMetrics (fs(p := File content)) (mopts\<lparr>file_path := p\<rparr>))) =
       [nat \<lceil>real (byteLength content) / 4\<rceil>]"
    using n by (simp add: handleMetrics_def Let_def getFileMetrics_fields)
  show ?thesis
    by (rule conjI [OF a conjI [OF b d]])
qed

text \<open>
  C1 as stated says that the ratio can be changed by configuration. It cannot: for a
  file of eight ASCII characters no value of the options makes \<open>analyze\<close> report anything
  but \<open>8 / 4 = 2\<close> estimated tokens.
\<close>

theorem ratio_not_configurable:
  "\<not> (\<exists>options. reported_tokens (fst (handleAnalyze (\<lambda>p. File (js ''abcdefgh'')) options)) \<noteq> [2])"
  by (simp add: handleAnalyze_tokens js_abcdefgh_bytes ceil_div_def)

text \<open>
  C10. The \<open>metrics\<close> handler reports as chunks needed the ceiling of the estimated token
  count divided by the constant 200000; an option such as \<open>maxTokens\<close> on the options
  object changes nothing; and for an empty file it reports 0 chunks and 1 line.
\<close>

theorem handleMetrics_chunks_needed:
  fixes options :: "'a FileOption_scheme" and aopts :: AnalysisOptions
  shows
  "reported_chunks (fst (handleMetrics (fs(p := File content)) (options\<lparr>file_path := p\<rparr>))) =
     [nat \<lceil>real (estimatedTokens (getFileMetrics content)) / 200000\<rceil>]
   \<and> handleMetrics fs (aopts\<lparr>maxTokens := m\<rparr>) = handleMetrics fs aopts
   \<and> handleMetrics (fs(p := File [])) (options\<lparr>file_path := p\<rparr>) =
       ([Log_MetricsHeader, Log_Rule, Log_Size 0, Log_Lines 1, Log_Functions 0,
         Log_EstimatedTokens 0, Log_ChunksNeeded 0], Returned)"
proof -
  have "int (ceil_div n 200000) = \<lceil>real n / 200000\<rceil>" for n
    using ceil_div_ceiling [of 200000 n] by simp
  then have c: "ceil_div n 200000 = nat \<lceil>real n / 200000\<rceil>" for n
    by (metis nat_int)
  have a: "reported_chunks (fst (handleMetrics (fs(p := File content)) (options\<lparr>file_path := p\<rparr>))) =
     [nat \<lceil>real (estimatedTokens (getFileMetrics content)) / 200000\<rceil>]"
    by (simp add: handleMetrics_def Let_def c)
  have b: "handleMetrics fs (aopts\<lparr>maxTokens := m\<rparr>) = handleMetrics fs aopts"
    by (simp add: handleMetrics_def split: fs_entry.splits)
  have d: "handleMetrics (fs(p := File [])) (options\<lparr>file_path := p\<rparr>) =
       ([Log_MetricsHeader, Log_Rule, Log_Size 0, Log_Lines 1, Log_Functions 0,
         Log_EstimatedTokens 0, Log_ChunksNeeded 0], Returned)"
    by (simp add: handleMetrics_def Let_def getFileMetrics_fields ceil_div_def)
  show ?thesis
    by (rule conjI [OF a conjI [OF b d]])
qed

section \<open>Properties of the version lookup\<close>

lemma getVersion_missing: "getVersion JSON_parse (fs(p := Missing)) p = fallback_version"
  by (simp add: getVersion_def getVersion_try_def)

lemma getVersion_unreadable: "getVersion JSON_parse (fs(p := Unreadable)) p = fallback_version"
  by (simp add: getVersion_def getVersion_try_def)

lemma getVersion_malformed:
  "JSON_parse text = None \<Longrightarrow> getVersion JSON_parse (fs(p := File text)) p = fallback_version"
  by (simp add: getVersion_def getVersion_try_def)

lemma getVersion_parsed:
  "JSON_parse text = Some packageJson \<Longrightarrow>
   getVersion JSON_parse (fs(p := File text)) p =
     (case get_version packageJson of
        Inl e \<Rightarrow> fallback_version
      | Inr v \<Rightarrow> if truthy v then v else fallback_version)"
  by (simp add: getVersion_def getVersion_try_def split: sum.splits)

lemma getVersion_string_version:
  assumes "JSON_parse text = Some (JObject props)"
    and "map_of props (js ''version'') = Some (JString v)" and "v \<noteq> []"
  shows "getVersion JSON_parse (fs(p := File text)) p = Value (JString v)"
  using assms by (simp add: getVersion_parsed)

lemma getVersion_never_undefined: "getVersion JSON_parse fs p \<noteq> Undefined"
proof -
  have "(if truthy v then v else fallback_version) \<noteq> Undefined" for v
    by (cases v) (simp_all add: fallback_version_def)
  then show ?thesis
    by (simp add: getVersion_def getVersion_try_def fallback_version_def
        split: fs_entry.splits option.splits sum.splits)
qed

text \<open>
  C9 at the package file \<open>{"version":1}\<close>: the version is truthy, so \<open>getVersion\<close> returns
  it, and what it returns is the number 1, not a string.
\<close>

theorem getVersion_numeric_version:
  "getVersion (\<lambda>text. if text = numeric_version_text then Some numeric_version_json else None)
     (\<lambda>p. File numeric_version_text) ''package.json'' = Value (JNumber (Finite 1))
   \<and> \<not> is_js_string
       (getVersion (\<lambda>text. if text = numeric_version_text then Some numeric_version_json else None)
          (\<lambda>p. File numeric_version_text) ''package.json'')"
  by (simp add: getVersion_def getVersion_try_def numeric_version_json_def)

section \<open>Properties of the orchestrator\<close>

lemma run_loop_outcomes:
  "outcomes (run_loop analyze config cancelled i spent cs) =
     map (outcome_for analyze config) (submitted config cancelled i spent cs)"
  by (induction cs arbitrary: i spent) (simp_all add: outcome_for_def Let_def case_prod_beta)

lemma attempts_chunkId: "outcome_chunkId (fst (attempts analyze b c n k)) = chunk_id c"
  by (induction n arbitrary: k)
     (simp_all add: succeeded_outcome_def failed_outcome_def case_prod_beta
        split: sum.splits AnalyzerError.splits)

lemma attempts_first_calls:
  "0 < k \<Longrightarrow>
   first_calls (snd (attempts analyze b c n k)) = (if k = 1 then [chunk_id c] else [])"
  by (induction n arbitrary: k)
     (simp_all add: case_prod_beta split: sum.splits AnalyzerError.splits)

lemma first_calls_append: "first_calls (xs @ ys) = first_calls xs @ first_calls ys"
  by (induction xs rule: first_calls.induct) auto

lemma run_loop_first_calls:
  "first_calls (events (run_loop analyze config cancelled i spent cs)) =
     map chunk_id (submitted config cancelled i spent cs)"
  by (induction cs arbitrary: i spent)
     (simp_all add: Let_def case_prod_beta first_calls_append attempts_first_calls)

lemma outcome_for_permanent:
  "analyze c 1 = Inl Permanent \<Longrightarrow> outcome_for analyze config c = failed_outcome c Permanent 1"
  by (cases "retries config") (simp_all add: outcome_for_def)

lemma attempts_cong:
  "analyze' c = analyze c \<Longrightarrow> attempts analyze' b c n k = attempts analyze b c n k"
  by (induction n arbitrary: k) (simp_all add: case_prod_beta split: sum.splits AnalyzerError.splits)

lemma run_loop_accounting:
  "mset (map outcome_chunkId (outcomes (run_loop analyze config cancelled i spent cs)))
     + mset (dropped (run_loop analyze config cancelled i spent cs))
     + mset (undispatched (run_loop analyze config cancelled i spent cs))
   = mset (map chunk_id cs)"
  by (induction cs arbitrary: i spent)
     (simp_all add: Let_def attempts_chunkId case_prod_beta)

lemma run_loop_spent:
  "spent \<le> maxTotalTokens config \<Longrightarrow>
   tokensSpent (run_loop analyze config cancelled i spent cs) \<le> maxTotalTokens config"
  by (induction cs arbitrary: i spent) (simp_all add: Let_def case_prod_beta)

lemma run_loop_spent_sum:
  "tokensSpent (run_loop analyze config cancelled i spent cs) =
     spent + sum_list (map chunk_tokens (submitted config cancelled i spent cs))"
  by (induction cs arbitrary: i spent) (simp_all add: Let_def case_prod_beta)

lemma submitted_zero_budget:
  "list_all (\<lambda>c. 0 < chunk_tokens c) cs \<Longrightarrow> maxTotalTokens config = 0 \<Longrightarrow>
   submitted config cancelled i 0 cs = []"
  by (induction cs arbitrary: i) simp_all

lemma run_loop_nothing_submitted:
  "submitted config cancelled i spent cs = [] \<Longrightarrow>
   events (run_loop analyze config cancelled i spent cs) = []
   \<and> dropped (run_loop analyze config cancelled i spent cs)
       @ undispatched (run_loop analyze config cancelled i spent cs) = map chunk_id cs"
  by (induction cs arbitrary: i spent) (simp_all add: Let_def case_prod_beta split: if_splits)

lemma five_submitted: "submitted (config_of 100) never 0 0 five_chunks = five_chunks"
  by (simp add: five_chunks_def config_of_def never_def chunk_of_def)

lemma outcome_accepting: "outcome_for accepting config x = succeeded_outcome x [] (Suc 0)"
  by (cases "retries config") (simp_all add: outcome_for_def accepting_def)

lemma attempts_accepting:
  "attempts accepting b c n k = (succeeded_outcome c [] k, [Call (chunk_id c) k])"
  by (cases n) (simp_all add: accepting_def)

lemma attempts_records:
  "k \<le> attemptCount (fst (attempts analyze b c n k))
   \<and> attemptCount (fst (attempts analyze b c n k)) \<le> k + n
   \<and> (\<forall>j. k \<le> j \<and> j < attemptCount (fst (attempts analyze b c n k)) \<longrightarrow> analyze c j = Inl Transient)
   \<and> (\<forall>fs. analyze c (attemptCount (fst (attempts analyze b c n k))) = Inr fs \<longrightarrow>
         succeeded (fst (attempts analyze b c n k)) = True
         \<and> findings (fst (attempts analyze b c n k)) = fs
         \<and> errorKind (fst (attempts analyze b c n k)) = None)
   \<and> (\<forall>e. analyze c (attemptCount (fst (attempts analyze b c n k))) = Inl e \<longrightarrow>
         succeeded (fst (attempts analyze b c n k)) = False
         \<and> findings (fst (attempts analyze b c n k)) = []
         \<and> errorKind (fst (attempts analyze b c n k)) = Some e)
   \<and> (analyze c (attemptCount (fst (attempts analyze b c n k))) = Inl Transient \<longrightarrow>
         attemptCount (fst (attempts analyze b c n k)) = k + n)"
proof (induction n arbitrary: k)
  case 0
  show ?case
    by (cases "analyze c k") (auto simp: succeeded_outcome_def failed_outcome_def)
next
  case (Suc n)
  show ?case
  proof (cases "analyze c k")
    case (Inr fs)
    then show ?thesis by (auto simp: succeeded_outcome_def)
  next
    case (Inl e)
    show ?thesis
    proof (cases e)
      case Permanent
      with Inl show ?thesis by (auto simp: failed_outcome_def)
    next
      case Transient
      with Inl have t: "analyze c k = Inl Transient" by simp
      then have eq: "fst (attempts analyze b c (Suc n) k) = fst (attempts analyze b c n (Suc k))"
        by (simp add: case_prod_beta)
      have j: "analyze c j = Inl Transient"
        if "k \<le> j" and "j < attemptCount (fst (attempts analyze b c n (Suc k)))" for j
      proof (cases "j = k")
        case True
        with t show ?thesis by simp
      next
        case False
        with that have "Suc k \<le> j" by simp
        with that Suc.IH [of "Suc k"] show ?thesis by blast
      qed
      from Suc.IH [of "Suc k"] j show ?thesis
        unfolding eq by (simp add: Suc_le_eq less_imp_le)
    qed
  qed
qed

lemma submitted_subset: "set (submitted config cancelled i spent cs) \<subseteq> set cs"
  by (induction cs arbitrary: i spent) auto

lemma submitted_all:
  "(\<forall>i. \<not> cancelled i) \<Longrightarrow> spent + sum_list (map chunk_tokens cs) \<le> maxTotalTokens config \<Longrightarrow>
   submitted config cancelled i spent cs = cs"
  by (induction cs arbitrary: i spent) simp_all

lemma run_loop_skipped_same:
  "dropped (run_loop analyze' config cancelled i spent cs) =
     dropped (run_loop analyze config cancelled i spent cs)
   \<and> undispatched (run_loop analyze' config cancelled i spent cs) =
     undispatched (run_loop analyze config cancelled i spent cs)"
  by (induction cs arbitrary: i spent) (simp_all add: Let_def case_prod_beta)

lemma run_loop_outcome_ids:
  "map outcome_chunkId (outcomes (run_loop analyze config cancelled i spent cs)) =
     map chunk_id (submitted config cancelled i spent cs)"
  by (simp add: run_loop_outcomes outcome_for_def attempts_chunkId)

lemma outcome_for_other:
  "y \<noteq> x \<Longrightarrow> outcome_for (analyze(x := f)) config y = outcome_for analyze config y"
proof -
  assume "y \<noteq> x"
  then have "(analyze(x := f)) y = analyze y" by simp
  then have "attempts (analyze(x := f)) (backoff config) y (retries config) 1 =
      attempts analyze (backoff config) y (retries config) 1"
    by (rule attempts_cong)
  then show ?thesis by (simp add: outcome_for_def)
qed

lemma outcome_for_hidden:
  "(if outcome_chunkId (outcome_for (analyze(x := f)) config y) = chunk_id x then None
    else Some (outcome_for (analyze(x := f)) config y)) =
   (if outcome_chunkId (outcome_for analyze config y) = chunk_id x then None
    else Some (outcome_for analyze config y))"
  by (cases "y = x") (simp_all add: outcome_for_other, simp add: outcome_for_def attempts_chunkId)

lemma outcome_busy_then_rejected:
  "outcome_for (accepting(chunk_of ''c3'' 80 120 10 := busy_then_rejected)) (config_of 100)
     (chunk_of ''c3'' 80 120 10) =
   \<lparr>outcome_chunkId = ''c3'', findings = [], succeeded = False, attemptCount = 2,
    errorKind = Some Permanent\<rparr>"
  by (simp add: outcome_for_def config_of_def numeral_2_eq_2 busy_then_rejected_def
      failed_outcome_def chunk_of_def)

text \<open>
  C5. A run returns exactly one outcome for every chunk it dispatches (the chunks whose
  first call is among the events), and every chunk handed to the run is accounted for
  by an outcome, a recorded drop or, after a cancellation, as undispatched; without
  cancellation and within the budget every chunk has an outcome. Each outcome records
  what the analyzer answered at its last attempt, all earlier attempts having failed
  transiently: findings mean \<open>succeeded = True\<close>; a permanent failure, at whatever
  attempt, means \<open>succeeded = False\<close> with \<open>errorKind = Some Permanent\<close>; a transient one
  is recorded as failed only when the retries are used up. Whatever the analyzer does
  on one chunk \<open>x\<close>, the same chunks get outcomes, the same are dropped, and the outcome
  of every other chunk is unchanged: a failure on \<open>x\<close> aborts nothing.
\<close>

theorem run_outcome_for_every_submitted_chunk:
  "map outcome_chunkId (outcomes (run chunks analyze config cancelled)) =
     first_calls (events (run chunks analyze config cancelled))
   \<and> mset (map outcome_chunkId (outcomes (run chunks analyze config cancelled)))
       + mset (dropped (run chunks analyze config cancelled))
       + mset (undispatched (run chunks analyze config cancelled))
     = mset (map chunk_id chunks)
   \<and> ((\<forall>i. \<not> cancelled i) \<and> sum_list (map chunk_tokens chunks) \<le> maxTotalTokens config \<longrightarrow>
        map outcome_chunkId (outcomes (run chunks analyze config cancelled)) = map chunk_id chunks)
   \<and> (\<forall>out \<in> set (outcomes (run chunks analyze config cancelled)). \<exists>c \<in> set chunks.
        outcome_chunkId out = chunk_id c
        \<and> 1 \<le> attemptCount out \<and> attemptCount out \<le> retries config + 1
        \<and> (\<forall>j \<in> {1 ..< attemptCount out}. analyze c j = Inl Transient)
        \<and> (\<forall>fs. analyze c (attemptCount out) = Inr fs \<longrightarrow>
              succeeded out = True \<and> findings out = fs \<and> errorKind out = None)
        \<and> (analyze c (attemptCount out) = Inl Permanent \<longrightarrow>
              succeeded out = False \<and> errorKind out = Some Permanent \<and> findings out = [])
        \<and> (analyze c (attemptCount out) = Inl Transient \<longrightarrow>
              succeeded out = False \<and> errorKind out = Some Transient \<and> findings out = []
              \<and> attemptCount out = retries config + 1))
   \<and> map (\<lambda>out. if outcome_chunkId out = chunk_id x then None else Some out)
         (outcomes (run chunks (analyze(x := f)) config cancelled)) =
       map (\<lambda>out. if outcome_chunkId out = chunk_id x then None else Some out)
         (outcomes (run chunks analyze config cancelled))
   \<and> map outcome_chunkId (outcomes (run chunks (analyze(x := f)) config cancelled)) =
       map outcome_chunkId (outcomes (run chunks analyze config cancelled))
   \<and> dropped (run chunks (analyze(x := f)) config cancelled) =
       dropped (run chunks analyze config cancelled)
   \<and> undispatched (run chunks (analyze(x := f)) config cancelled) =
       undispatched (run chunks analyze config cancelled)"
proof -
  let ?sub = "submitted config cancelled 0 0 chunks"
  have a: "map outcome_chunkId (outcomes (run chunks analyze config cancelled)) =
     first_calls (events (run chunks analyze config cancelled))"
    by (simp add: run_def run_loop_outcome_ids run_loop_first_calls)
  have b: "mset (map outcome_chunkId (outcomes (run chunks analyze config cancelled)))
       + mset (dropped (run chunks analyze config cancelled))
       + mset (undispatched (run chunks analyze config cancelled))
     = mset (map chunk_id chunks)"
    unfolding run_def by (rule run_loop_accounting)
  have c: "(\<forall>i. \<not> cancelled i) \<and> sum_list (map chunk_tokens chunks) \<le> maxTotalTokens config \<longrightarrow>
        map outcome_chunkId (outcomes (run chunks analyze config cancelled)) = map chunk_id chunks"
  proof (intro impI, elim conjE)
    assume "\<forall>i. \<not> cancelled i" and "sum_list (map chunk_tokens chunks) \<le> maxTotalTokens config"
    then have "?sub = chunks"
      using submitted_all [of cancelled 0 chunks config 0] by simp
    then show "map outcome_chunkId (outcomes (run chunks analyze config cancelled)) = map chunk_id chunks"
      by (simp add: run_def run_loop_outcome_ids)
  qed
  have d: "\<forall>out \<in> set (outcomes (run chunks analyze config cancelled)). \<exists>c \<in> set chunks.
        outcome_chunkId out = chunk_id c
        \<and> 1 \<le> attemptCount out \<and> attemptCount out \<le> retries config + 1
        \<and> (\<forall>j \<in> {1 ..< attemptCount out}. analyze c j = Inl Transient)
        \<and> (\<forall>fs. analyze c (attemptCount out) = Inr fs \<longrightarrow>
              succeeded out = True \<and> findings out = fs \<and> errorKind out = None)
        \<and> (analyze c (attemptCount out) = Inl Permanent \<longrightarrow>
              succeeded out = False \<and> errorKind out = Some Permanent \<and> findings out = [])
        \<and> (analyze c (attemptCount out) = Inl Transient \<longrightarrow>
              succeeded out = False \<and> errorKind out = Some Transient \<and> findings out = []
              \<and> attemptCount out = retries config + 1)"
  proof
    fix out
    assume "out \<in> set (outcomes (run chunks analyze config cancelled))"
    then obtain c where cs: "c \<in> set ?sub" and out: "out = outcome_for analyze config c"
      by (auto simp: run_def run_loop_outcomes)
    from cs submitted_subset have cin: "c \<in> set chunks" by blast
    have id: "outcome_chunkId out = chunk_id c"
      by (simp add: out outcome_for_def attempts_chunkId)
    from attempts_records [of 1 analyze "backoff config" c "retries config"]
    have "1 \<le> attemptCount out \<and> attemptCount out \<le> retries config + 1
        \<and> (\<forall>j \<in> {1 ..< attemptCount out}. analyze c j = Inl Transient)
        \<and> (\<forall>fs. analyze c (attemptCount out) = Inr fs \<longrightarrow>
              succeeded out = True \<and> findings out = fs \<and> errorKind out = None)
        \<and> (analyze c (attemptCount out) = Inl Permanent \<longrightarrow>
              succeeded out = False \<and> errorKind out = Some Permanent \<and> findings out = [])
        \<and> (analyze c (attemptCount out) = Inl Transient \<longrightarrow>
              succeeded out = False \<and> errorKind out = Some Transient \<and> findings out = []
              \<and> attemptCount out = retries config + 1)"
      unfolding out outcome_for_def by auto
    with id cin show "\<exists>c \<in> set chunks.
        outcome_chunkId out = chunk_id c
        \<and> 1 \<le> attemptCount out \<and> attemptCount out \<le> retries config + 1
        \<and> (\<forall>j \<in> {1 ..< attemptCount out}. analyze c j = Inl Transient)
        \<and> (\<forall>fs. analyze c (attemptCount out) = Inr fs \<longrightarrow>
              succeeded out = True \<and> findings out = fs \<and> errorKind out = None)
        \<and> (analyze c (attemptCount out) = Inl Permanent \<longrightarrow>
              succeeded out = False \<and> errorKind out = Some Permanent \<and> findings out = [])
        \<and> (analyze c (attemptCount out) = Inl Transient \<longrightarrow>
              succeeded out = False \<and> errorKind out = Some Transient \<and> findings out = []
              \<and> attemptCount out = retries config + 1)"
      by (intro bexI [of _ c]) simp_all
  qed
  have e: "map (\<lambda>out. if outcome_chunkId out = chunk_id x then None else Some out)
         (outcomes (run chunks (analyze(x := f)) config cancelled)) =
       map (\<lambda>out. if outcome_chunkId out = chunk_id x then None else Some out)
         (outcomes (run chunks analyze config cancelled))"
    by (simp add: run_def run_loop_outcomes outcome_for_hidden)
  have g: "map outcome_chunkId (outcomes (run chunks (analyze(x := f)) config cancelled)) =
       map outcome_chunkId (outcomes (run chunks analyze config cancelled))"
    by (simp add: run_def run_loop_outcome_ids)
  have h: "dropped (run chunks (analyze(x := f)) config cancelled) =
       dropped (run chunks analyze config cancelled)"
    unfolding run_def by (rule conjunct1 [OF run_loop_skipped_same])
  have k: "undispatched (run chunks (analyze(x := f)) config cancelled) =
       undispatched (run chunks analyze config cancelled)"
    unfolding run_def by (rule conjunct2 [OF run_loop_skipped_same])
  show ?thesis
    by (rule conjI [OF a conjI [OF b conjI [OF c conjI [OF d conjI [OF e conjI [OF g conjI [OF h k]]]]]]])
qed

text \<open>
  The example of the specification: of five chunks the third is rejected for good, here
  at its second attempt; the run returns five outcomes, four of them successes and the
  third a failure with its error kind.
\<close>

theorem five_chunks_one_permanent_failure:
  "(\<forall>i. \<not> never i)
   \<and> sum_list (map chunk_tokens five_chunks) \<le> maxTotalTokens (config_of 100)
   \<and> map outcome_chunkId
        (outcomes (run five_chunks (accepting(chunk_of ''c3'' 80 120 10 := busy_then_rejected))
           (config_of 100) never)) = [''c1'', ''c2'', ''c3'', ''c4'', ''c5'']
   \<and> outcomes (run five_chunks (accepting(chunk_of ''c3'' 80 120 10 := busy_then_rejected))
        (config_of 100) never) =
      [\<lparr>outcome_chunkId = ''c1'', findings = [], succeeded = True, attemptCount = 1,
        errorKind = None\<rparr>,
       \<lparr>outcome_chunkId = ''c2'', findings = [], succeeded = True, attemptCount = 1,
        errorKind = None\<rparr>,
       \<lparr>outcome_chunkId = ''c3'', findings = [], succeeded = False, attemptCount = 2,
        errorKind = Some Permanent\<rparr>,
       \<lparr>outcome_chunkId = ''c4'', findings = [], succeeded = True, attemptCount = 1,
        errorKind = None\<rparr>,
       \<lparr>outcome_chunkId = ''c5'', findings = [], succeeded = True, attemptCount = 1,
        errorKind = None\<rparr>]"
proof -
  let ?c3 = "chunk_of ''c3'' 80 120 10"
  let ?a = "accepting(?c3 := busy_then_rejected)"
  have h: "(\<forall>i. \<not> never i)
      \<and> sum_list (map chunk_tokens five_chunks) \<le> maxTotalTokens (config_of 100)"
    by (simp add: never_def five_chunks_def chunk_of_def config_of_def)
  have "(\<forall>i. \<not> never i)
      \<and> sum_list (map chunk_tokens five_chunks) \<le> maxTotalTokens (config_of 100) \<longrightarrow>
      map outcome_chunkId (outcomes (run five_chunks ?a (config_of 100) never)) =
        map chunk_id five_chunks"
    by (rule conjunct1 [OF conjunct2 [OF conjunct2
          [OF run_outcome_for_every_submitted_chunk [of five_chunks ?a "config_of 100" never]]]])
  with h have "map outcome_chunkId (outcomes (run five_chunks ?a (config_of 100) never)) =
        map chunk_id five_chunks"
    by (rule rev_mp)
  then have ids: "map outcome_chunkId (outcomes (run five_chunks ?a (config_of 100) never)) =
        [''c1'', ''c2'', ''c3'', ''c4'', ''c5'']"
    by (simp add: five_chunks_def chunk_of_def)
  have "outcomes (run five_chunks ?a (config_of 100) never) =
      map (outcome_for ?a (config_of 100)) five_chunks"
    by (simp add: run_def run_loop_outcomes five_submitted)
  also have "\<dots> =
      [\<lparr>outcome_chunkId = ''c1'', findings = [], succeeded = True, attemptCount = 1,
        errorKind = None\<rparr>,
       \<lparr>outcome_chunkId = ''c2'', findings = [], succeeded = True, attemptCount = 1,
        errorKind = None\<rparr>,
       \<lparr>outcome_chunkId = ''c3'', findings = [], succeeded = False, attemptCount = 2,
        errorKind = Some Permanent\<rparr>,
       \<lparr>outcome_chunkId = ''c4'', findings = [], succeeded = True, attemptCount = 1,
        errorKind = None\<rparr>,
       \<lparr>outcome_chunkId = ''c5'', findings = [], succeeded = True, attemptCount = 1,
        errorKind = None\<rparr>]"
    using outcome_busy_then_rejected
    by (simp add: five_chunks_def outcome_for_other outcome_accepting succeeded_outcome_def
        chunk_of_def)
  finally have outs: "outcomes (run five_chunks ?a (config_of 100) never) =
      [\<lparr>outcome_chunkId = ''c1'', findings = [], succeeded = True, attemptCount = 1,
        errorKind = None\<rparr>,
       \<lparr>outcome_chunkId = ''c2'', findings = [], succeeded = True, attemptCount = 1,
        errorKind = None\<rparr>,
       \<lparr>outcome_chunkId = ''c3'', findings = [], succeeded = False, attemptCount = 2,
        errorKind = Some Permanent\<rparr>,
       \<lparr>outcome_chunkId = ''c4'', findings = [], succeeded = True, attemptCount = 1,
        errorKind = None\<rparr>,
       \<lparr>outcome_chunkId = ''c5'', findings = [], succeeded = True, attemptCount = 1,
        errorKind = None\<rparr>]" .
  show ?thesis
    by (rule conjI [OF conjunct1 [OF h] conjI [OF conjunct2 [OF h] conjI [OF ids outs]]])
qed

subsection \<open>The budget\<close>

text \<open>
  The tokens a run commits never exceed \<open>maxTotalTokens\<close> and are the estimates of the
  submitted chunks; every chunk is accounted for once, by an outcome, a recorded drop
  or, after a cancellation, as undispatched. With \<open>maxTotalTokens = 0\<close> and chunks that
  all have a positive estimate, the run calls the analyzer zero times, returns no
  outcome and records every chunk.
\<close>

lemma run_budget:
  "tokensSpent (run chunks analyze config cancelled) \<le> maxTotalTokens config
   \<and> tokensSpent (run chunks analyze config cancelled) =
       sum_list (map chunk_tokens (submitted config cancelled 0 0 chunks))
   \<and> mset (map outcome_chunkId (outcomes (run chunks analyze config cancelled)))
       + mset (dropped (run chunks analyze config cancelled))
       + mset (undispatched (run chunks analyze config cancelled))
     = mset (map chunk_id chunks)
   \<and> (list_all (\<lambda>c. 0 < chunk_tokens c) chunks \<and> maxTotalTokens config = 0 \<longrightarrow>
        events (run chunks analyze config cancelled) = []
        \<and> outcomes (run chunks analyze config cancelled) = []
        \<and> dropped (run chunks analyze config cancelled)
            @ undispatched (run chunks analyze config cancelled) = map chunk_id chunks)"
proof -
  have a: "tokensSpent (run chunks analyze config cancelled) \<le> maxTotalTokens config"
    by (simp add: run_def run_loop_spent)
  have b: "tokensSpent (run chunks analyze config cancelled) =
       sum_list (map chunk_tokens (submitted config cancelled 0 0 chunks))"
    by (simp add: run_def run_loop_spent_sum)
  have c: "mset (map outcome_chunkId (outcomes (run chunks analyze config cancelled)))
       + mset (dropped (run chunks analyze config cancelled))
       + mset (undispatched (run chunks analyze config cancelled))
     = mset (map chunk_id chunks)"
    unfolding run_def by (rule run_loop_accounting)
  have d: "list_all (\<lambda>c. 0 < chunk_tokens c) chunks \<and> maxTotalTokens config = 0 \<longrightarrow>
        events (run chunks analyze config cancelled) = []
        \<and> outcomes (run chunks analyze config cancelled) = []
        \<and> dropped (run chunks analyze config cancelled)
            @ undispatched (run chunks analyze config cancelled) = map chunk_id chunks"
  proof (intro impI, elim conjE)
    assume "list_all (\<lambda>c. 0 < chunk_tokens c) chunks" and "maxTotalTokens config = 0"
    then have s: "submitted config cancelled 0 0 chunks = []"
      by (rule submitted_zero_budget)
    from run_loop_nothing_submitted [OF s, of analyze] s
    show "events (run chunks analyze config cancelled) = []
        \<and> outcomes (run chunks analyze config cancelled) = []
        \<and> dropped (run chunks analyze config cancelled)
            @ undispatched (run chunks analyze config cancelled) = map chunk_id chunks"
      by (simp add: run_def run_loop_outcomes)
  qed
  show ?thesis
    by (rule conjI [OF a conjI [OF b conjI [OF c d]]])
qed

text \<open>Five chunks of ten tokens each under a budget of 0.\<close>

lemma run_budget_zero_five_chunks:
  "list_all (\<lambda>c. 0 < chunk_tokens c) five_chunks \<and> maxTotalTokens (config_of 0) = 0
   \<and> events (run five_chunks accepting (config_of 0) never) = []
   \<and> outcomes (run five_chunks accepting (config_of 0) never) = []
   \<and> dropped (run five_chunks accepting (config_of 0) never)
       @ undispatched (run five_chunks accepting (config_of 0) never)
     = [''c1'', ''c2'', ''c3'', ''c4'', ''c5'']"
proof -
  have h: "list_all (\<lambda>c. 0 < chunk_tokens c) five_chunks \<and> maxTotalTokens (config_of 0) = 0"
    by (simp add: five_chunks_def chunk_of_def config_of_def)
  have m: "map chunk_id five_chunks = [''c1'', ''c2'', ''c3'', ''c4'', ''c5'']"
    by (simp add: five_chunks_def chunk_of_def)
  have "list_all (\<lambda>c. 0 < chunk_tokens c) five_chunks \<and> maxTotalTokens (config_of 0) = 0 \<longrightarrow>
        events (run five_chunks accepting (config_of 0) never) = []
        \<and> outcomes (run five_chunks accepting (config_of 0) never) = []
        \<and> dropped (run five_chunks accepting (config_of 0) never)
            @ undispatched (run five_chunks accepting (config_of 0) never) = map chunk_id five_chunks"
    by (rule conjunct2 [OF conjunct2 [OF conjunct2
          [OF run_budget [of five_chunks accepting "config_of 0" never]]]])
  with h have "events (run five_chunks accepting (config_of 0) never) = []
        \<and> outcomes (run five_chunks accepting (config_of 0) never) = []
        \<and> dropped (run five_chunks accepting (config_of 0) never)
            @ undispatched (run five_chunks accepting (config_of 0) never) = map chunk_id five_chunks"
    by (rule rev_mp)
  with h m show ?thesis by simp
qed

text \<open>
  A chunk with an estimate of zero tokens (an empty byte range) is within any budget:
  adding it does not take the total over a budget of 0, so it is dispatched. Section 8 of
  the specification, which expects no dispatch at all under a budget of 0, and the
  selection rule of section 4.5 part ways on such a chunk.
\<close>

lemma zero_budget_dispatches_empty_chunk:
  "events (run [chunk_of ''c0'' 0 0 0] accepting (config_of 0) never) = [Call ''c0'' 1]"
  by (simp add: run_def attempts_accepting chunk_of_def config_of_def never_def)

end
